theory Spec2Isabelle
  imports Main
begin

section \<open>The record contracts of \<^verbatim>\<open>bbs.go\<close>\<close>

text \<open>
  The facade of package \<^verbatim>\<open>bbs\<close> sees a record only through the accessor methods of
  its interface. A decoded record is an immutable snapshot, so each interface is a
  record of the values its accessors return. \<^verbatim>\<open>time.Time\<close> is kept as seconds
  since the epoch.
\<close>

record BoardRecord =
  BoardID :: string
  Title :: string
  IsClass :: bool
  ClassID :: string
  BM :: "string list"

record ArticleRecord =
  Filename :: string
  Modified :: int
  Recommend :: int
  Date :: string
  Title :: string
  Money :: int
  Owner :: string

text \<open>
  Modelled from the spec: the declarations of interface \<^verbatim>\<open>UserArticleRecord\<close> and of
  the map type \<^verbatim>\<open>userArticleRecord\<close> are in a file of the package that is not part of
  the sources at hand. The specification gives the entity as
  \<open>{board id, title, owner, article filename}\<close>; the four fields carry the keys of
  the literal that \<^verbatim>\<open>GetUserArticleRecordFile\<close> builds.
\<close>

record UserArticleRecord =
  board_id :: string
  title :: string
  owner :: string
  article_id :: string

section \<open>Errors, panics and the standard library\<close>

text \<open>
  A Go \<^verbatim>\<open>error\<close> is used by the facade only through \<^verbatim>\<open>err.Error()\<close> and by
  being handed on, so an error is the message it carries; \<^verbatim>\<open>fmt.Errorf\<close> builds one
  from the formatted text. A function returning \<open>(v, error)\<close> is a pair whose second
  component is \<open>None\<close> for \<^verbatim>\<open>nil\<close>; a \<^verbatim>\<open>nil\<close> slice is the empty list.
\<close>

datatype error = Errorf (Error: string)

text \<open>
  A type assertion \<^verbatim>\<open>x.(T)\<close> without the \<open>ok\<close> result panics when \<open>x\<close> does not
  implement \<open>T\<close>: the call does not return to its caller.
\<close>

datatype 'a outcome = Panic | Return 'a

text \<open>
  \<^verbatim>\<open>strings.HasPrefix\<close> and \<^verbatim>\<open>strings.Contains\<close> of the Go standard library, on
  byte strings.
\<close>

fun HasPrefix :: "string \<Rightarrow> string \<Rightarrow> bool" where
  "HasPrefix s [] = True"
| "HasPrefix [] (c # cs) = False"
| "HasPrefix (x # xs) (c # cs) = (x = c \<and> HasPrefix xs cs)"

fun Contains :: "string \<Rightarrow> string \<Rightarrow> bool" where
  "Contains [] substr = (substr = [])"
| "Contains (x # xs) substr = (HasPrefix (x # xs) substr \<or> Contains xs substr)"

section \<open>Drivers\<close>

text \<open>
  A driver is a value of an interface type: a fixed table of methods over the driver's
  own mutable world \<open>'w\<close> (its settings, the files it reads). Every method takes the
  world and returns it, changed or not. Of interface \<^verbatim>\<open>Connector\<close> the table holds
  the methods that the operations below call. The two optional interfaces are probed
  with a type assertion in the source; here they are optional fields of the table.
  The values of the loosely typed map that \<^verbatim>\<open>NewBoardRecord\<close> takes are kept as
  strings; the facade only hands the map on.
\<close>

record 'w WriteBoardConnector =
  NewBoardRecord :: "(string \<rightharpoonup> string) \<Rightarrow> 'w \<Rightarrow> (BoardRecord option \<times> error option) \<times> 'w"
  AddBoardRecordFileRecord :: "string \<Rightarrow> BoardRecord \<Rightarrow> 'w \<Rightarrow> error option \<times> 'w"

record 'w UserArticleConnector =
  GetUserArticleRecordsPath :: "string \<Rightarrow> 'w \<Rightarrow> (string \<times> error option) \<times> 'w"
  ReadUserArticleRecordFile :: "string \<Rightarrow> 'w \<Rightarrow> (UserArticleRecord list \<times> error option) \<times> 'w"

record 'w Connector =
  Open :: "string \<Rightarrow> 'w \<Rightarrow> error option \<times> 'w"
  GetBoardRecordsPath :: "'w \<Rightarrow> (string \<times> error option) \<times> 'w"
  ReadBoardRecordsFile :: "string \<Rightarrow> 'w \<Rightarrow> (BoardRecord list \<times> error option) \<times> 'w"
  GetBoardArticleRecordsPath :: "string \<Rightarrow> 'w \<Rightarrow> (string \<times> error option) \<times> 'w"
  GetBoardTreasureRecordsPath :: "string \<Rightarrow> string list \<Rightarrow> 'w \<Rightarrow> (string \<times> error option) \<times> 'w"
  ReadArticleRecordsFile :: "string \<Rightarrow> 'w \<Rightarrow> (ArticleRecord list \<times> error option) \<times> 'w"
  asWriteBoardConnector :: "'w WriteBoardConnector option"
  asUserArticleConnector :: "'w UserArticleConnector option"

text \<open>
  The calls that the facade makes into a driver are recorded, in order, next to the
  driver's world: what the facade read, and what it never touched, is then a property
  of the trace.
\<close>

datatype call =
    Call_Open string
  | Call_GetBoardRecordsPath
  | Call_ReadBoardRecordsFile string
  | Call_GetBoardArticleRecordsPath string
  | Call_GetBoardTreasureRecordsPath string "string list"
  | Call_ReadArticleRecordsFile string
  | Call_NewBoardRecord
  | Call_AddBoardRecordFileRecord string
  | Call_GetUserArticleRecordsPath string
  | Call_ReadUserArticleRecordFile string

type_synonym 'w st = "'w \<times> call list"

definition invoke :: "call \<Rightarrow> ('w \<Rightarrow> 'a \<times> 'w) \<Rightarrow> 'w st \<Rightarrow> 'a \<times> 'w st" where
  "invoke ev m s = (case m (fst s) of (a, w') \<Rightarrow> (a, (w', snd s @ [ev])))"

section \<open>The registry and the facade\<close>

record 'w DB =
  connector :: "'w Connector"

text \<open>The package variable \<^verbatim>\<open>drivers\<close> is a map from driver names to drivers.\<close>

definition Register :: "string \<Rightarrow> 'w Connector \<Rightarrow> (string \<rightharpoonup> 'w Connector) \<Rightarrow> (string \<rightharpoonup> 'w Connector)" where
  "Register drivername c drivers = drivers(drivername \<mapsto> c)"

text \<open>
  Function \<^verbatim>\<open>Open\<close> of the package (the method of the same name is a field of
  \<open>Connector\<close>). The verb \<^verbatim>\<open>%v\<close> prints a string as it is and an error as its
  message. A \<^verbatim>\<open>nil\<close> pointer to a \<open>DB\<close> is \<open>None\<close>. The calls of
  \<^verbatim>\<open>log.Println\<close> in the methods write to the standard logger and have no part in
  what is returned; they are left out.
\<close>

definition bbs_Open ::
  "(string \<rightharpoonup> 'w Connector) \<Rightarrow> string \<Rightarrow> string \<Rightarrow> 'w st \<Rightarrow> ('w DB option \<times> error option) \<times> 'w st" where
  "bbs_Open drivers drivername dataSourceName s =
     (case drivers drivername of
        None \<Rightarrow> ((None, Some (Errorf (''bbs: drivername: '' @ drivername @ '' not found''))), s)
      | Some c \<Rightarrow>
          (case invoke (Call_Open dataSourceName) (Open c dataSourceName) s of
             (Some err, s1) \<Rightarrow>
               ((None, Some (Errorf (''bbs: drivername: '' @ drivername @ '' open error: '' @ Error err))), s1)
           | (None, s1) \<Rightarrow> ((Some \<lparr>connector = c\<rparr>, None), s1)))"

definition ReadBoardRecords :: "'w DB \<Rightarrow> 'w st \<Rightarrow> (BoardRecord list \<times> error option) \<times> 'w st" where
  "ReadBoardRecords db s =
     (case invoke Call_GetBoardRecordsPath (GetBoardRecordsPath (connector db)) s of
        ((path, Some err), s1) \<Rightarrow> (([], Some err), s1)
      | ((path, None), s1) \<Rightarrow>
          (case invoke (Call_ReadBoardRecordsFile path) (ReadBoardRecordsFile (connector db) path) s1 of
             ((recs, Some err), s2) \<Rightarrow> (([], Some err), s2)
           | ((recs, None), s2) \<Rightarrow> ((recs, None), s2)))"

definition ReadBoardArticleRecordsFile ::
  "'w DB \<Rightarrow> string \<Rightarrow> 'w st \<Rightarrow> (ArticleRecord list \<times> error option) \<times> 'w st" where
  "ReadBoardArticleRecordsFile db boardID s =
     (case invoke (Call_GetBoardArticleRecordsPath boardID)
             (GetBoardArticleRecordsPath (connector db) boardID) s of
        ((path, Some err), s1) \<Rightarrow> (([], Some err), s1)
      | ((path, None), s1) \<Rightarrow>
          (case invoke (Call_ReadArticleRecordsFile path) (ReadArticleRecordsFile (connector db) path) s1 of
             ((recs, Some err), s2) \<Rightarrow>
               (if Contains (Error err) ''no such file or directory'' then (([], None), s2)
                else (([], Some err), s2))
           | ((recs, None), s2) \<Rightarrow> ((recs, None), s2)))"

definition ReadBoardTreasureRecordsFile ::
  "'w DB \<Rightarrow> string \<Rightarrow> string list \<Rightarrow> 'w st \<Rightarrow> (ArticleRecord list \<times> error option) \<times> 'w st" where
  "ReadBoardTreasureRecordsFile db boardID treasureID s =
     (case invoke (Call_GetBoardTreasureRecordsPath boardID treasureID)
             (GetBoardTreasureRecordsPath (connector db) boardID treasureID) s of
        ((path, Some err), s1) \<Rightarrow> (([], Some err), s1)
      | ((path, None), s1) \<Rightarrow>
          (case invoke (Call_ReadArticleRecordsFile path) (ReadArticleRecordsFile (connector db) path) s1 of
             ((recs, Some err), s2) \<Rightarrow> (([], Some err), s2)
           | ((recs, None), s2) \<Rightarrow> ((recs, None), s2)))"

text \<open>
  Methods \<^verbatim>\<open>NewBoardRecord\<close> and \<^verbatim>\<open>AddBoardRecord\<close> of \<open>DB\<close>. Both convert the
  driver with \<^verbatim>\<open>db.connector.(WriteBoardConnector)\<close>, the one-result form of the type
  assertion.
\<close>

definition DB_NewBoardRecord ::
  "'w DB \<Rightarrow> (string \<rightharpoonup> string) \<Rightarrow> 'w st \<Rightarrow> (BoardRecord option \<times> error option) outcome \<times> 'w st" where
  "DB_NewBoardRecord db args s =
     (case asWriteBoardConnector (connector db) of
        None \<Rightarrow> (Panic, s)
      | Some wbc \<Rightarrow>
          (case invoke Call_NewBoardRecord (NewBoardRecord wbc args) s of
             (r, s1) \<Rightarrow> (Return r, s1)))"

definition AddBoardRecord :: "'w DB \<Rightarrow> BoardRecord \<Rightarrow> 'w st \<Rightarrow> error option outcome \<times> 'w st" where
  "AddBoardRecord db brd s =
     (case invoke Call_GetBoardRecordsPath (GetBoardRecordsPath (connector db)) s of
        ((path, Some err), s1) \<Rightarrow> (Return (Some err), s1)
      | ((path, None), s1) \<Rightarrow>
          (case asWriteBoardConnector (connector db) of
             None \<Rightarrow> (Panic, s1)
           | Some wbc \<Rightarrow>
               (case invoke (Call_AddBoardRecordFileRecord path) (AddBoardRecordFileRecord wbc path brd) s1 of
                  (Some err, s2) \<Rightarrow> (Return (Some err), s2)
                | (None, s2) \<Rightarrow> (Return None, s2))))"

subsection \<open>\<^verbatim>\<open>GetUserArticleRecordFile\<close>\<close>

definition shouldSkip :: "string \<Rightarrow> bool" where
  "shouldSkip boardID = (if boardID = ''ALLPOST'' then True else False)"

text \<open>The record literal built for article \<open>ar\<close> of board \<open>r\<close>.\<close>

definition userArticleRecord :: "BoardRecord \<Rightarrow> ArticleRecord \<Rightarrow> UserArticleRecord" where
  "userArticleRecord r ar =
     \<lparr>board_id = BoardID r, title = ArticleRecord.Title ar, owner = Owner ar, article_id = Filename ar\<rparr>"

text \<open>The inner loop, over the articles of one board; \<open>recs\<close> is the slice appended to.\<close>

fun scanArticles ::
  "string \<Rightarrow> BoardRecord \<Rightarrow> ArticleRecord list \<Rightarrow> UserArticleRecord list \<Rightarrow> UserArticleRecord list" where
  "scanArticles userID r [] recs = recs"
| "scanArticles userID r (ar # ars) recs =
     scanArticles userID r ars (if Owner ar = userID then recs @ [userArticleRecord r ar] else recs)"

text \<open>The outer loop, over the board records.\<close>

fun scanBoards ::
  "'w DB \<Rightarrow> string \<Rightarrow> BoardRecord list \<Rightarrow> UserArticleRecord list \<Rightarrow> 'w st \<Rightarrow>
     (UserArticleRecord list \<times> error option) \<times> 'w st" where
  "scanBoards db userID [] recs s = ((recs, None), s)"
| "scanBoards db userID (r # rs) recs s =
     (if shouldSkip (BoardID r) then scanBoards db userID rs recs s
      else
        (case ReadBoardArticleRecordsFile db (BoardID r) s of
           ((ars, Some err), s1) \<Rightarrow> (([], Some err), s1)
         | ((ars, None), s1) \<Rightarrow> scanBoards db userID rs (scanArticles userID r ars recs) s1))"

text \<open>
  The second half of the method, from the call of \<^verbatim>\<open>db.ReadBoardRecords()\<close> to the
  end; \<open>recs\<close> is the value that variable holds when control arrives there.
\<close>

definition aggregate ::
  "'w DB \<Rightarrow> string \<Rightarrow> UserArticleRecord list \<Rightarrow> 'w st \<Rightarrow> (UserArticleRecord list \<times> error option) \<times> 'w st" where
  "aggregate db userID recs s =
     (case ReadBoardRecords db s of
        ((boardRecords, Some err), s1) \<Rightarrow> (([], Some err), s1)
      | ((boardRecords, None), s1) \<Rightarrow> scanBoards db userID boardRecords recs s1)"

definition GetUserArticleRecordFile ::
  "'w DB \<Rightarrow> string \<Rightarrow> 'w st \<Rightarrow> (UserArticleRecord list \<times> error option) \<times> 'w st" where
  "GetUserArticleRecordFile db userID s =
     (case asUserArticleConnector (connector db) of
        None \<Rightarrow> aggregate db userID [] s
      | Some uac \<Rightarrow>
          (case invoke (Call_GetUserArticleRecordsPath userID) (GetUserArticleRecordsPath uac userID) s of
             ((path, Some err), s1) \<Rightarrow> (([], Some err), s1)
           | ((path, None), s1) \<Rightarrow>
               (case invoke (Call_ReadUserArticleRecordFile path) (ReadUserArticleRecordFile uac path) s1 of
                  ((recs, Some err), s2) \<Rightarrow> (([], Some err), s2)
                | ((recs, None), s2) \<Rightarrow>
                    (if length recs \<noteq> 0 then ((recs, None), s2)
                     else aggregate db userID recs s2))))"

section \<open>Notions used to state the properties\<close>

text \<open>
  The board records of a list that the scan looks at: those whose id is not
  \<open>ALLPOST\<close>, in the order of the list.
\<close>

definition notALLPOST :: "BoardRecord list \<Rightarrow> BoardRecord list" where
  "notALLPOST boardRecords = filter (\<lambda>r. BoardID r \<noteq> ''ALLPOST'') boardRecords"

text \<open>
  The records synthesized from boards paired with their article indexes: for each
  board in order, for each article of its index in order whose owner is \<open>U\<close>, one
  record; the runs are concatenated and nothing is removed.
\<close>

definition synthesized :: "string \<Rightarrow> (BoardRecord \<times> ArticleRecord list) list \<Rightarrow> UserArticleRecord list" where
  "synthesized U scanned =
     concat (map (\<lambda>(r, ars).
       map (\<lambda>ar. \<lparr>board_id = BoardID r, title = ArticleRecord.Title ar, owner = Owner ar,
                  article_id = Filename ar\<rparr>)
         (filter (\<lambda>ar. Owner ar = U) ars)) scanned)"

text \<open>
  Reading the article indexes of a list of boards one after the other with
  \<open>ReadBoardArticleRecordsFile\<close>, the world handed from each read to the next: either
  all reads succeed and the indexes are returned in order, or the first error is, with
  the world as that read left it.
\<close>

fun readIndexes :: "'w DB \<Rightarrow> BoardRecord list \<Rightarrow> 'w st \<Rightarrow> (error + ArticleRecord list list) \<times> 'w st" where
  "readIndexes db [] s = (Inr [], s)"
| "readIndexes db (r # rs) s =
     (case ReadBoardArticleRecordsFile db (BoardID r) s of
        ((ars, Some err), s1) \<Rightarrow> (Inl err, s1)
      | ((ars, None), s1) \<Rightarrow>
          (case readIndexes db rs s1 of
             (Inl err, s2) \<Rightarrow> (Inl err, s2)
           | (Inr indexes, s2) \<Rightarrow> (Inr (ars # indexes), s2)))"

text \<open>
  The same reads stated over what the driver returns, without the facade's reader:
  for each board the driver resolves the path of the index and decodes the file. A
  path that does not resolve, or a decoding error whose message does not say
  \<open>no such file or directory\<close>, ends the reads with that error; a decoding error
  whose message says so counts as an empty index.
\<close>

definition consIndex ::
  "ArticleRecord list \<Rightarrow> (error + ArticleRecord list list) \<times> 'w st \<Rightarrow> (error + ArticleRecord list list) \<times> 'w st" where
  "consIndex ars res =
     (case res of (Inl err, s') \<Rightarrow> (Inl err, s') | (Inr indexes, s') \<Rightarrow> (Inr (ars # indexes), s'))"

fun driverIndexes ::
  "'w Connector \<Rightarrow> BoardRecord list \<Rightarrow> 'w st \<Rightarrow> (error + ArticleRecord list list) \<times> 'w st" where
  "driverIndexes c [] s = (Inr [], s)"
| "driverIndexes c (r # rs) s =
     (case GetBoardArticleRecordsPath c (BoardID r) (fst s) of
        ((path, Some err), w1) \<Rightarrow> (Inl err, (w1, snd s @ [Call_GetBoardArticleRecordsPath (BoardID r)]))
      | ((path, None), w1) \<Rightarrow>
          (case ReadArticleRecordsFile c path w1 of
             ((ars, Some err), w2) \<Rightarrow>
               (if Contains (Error err) ''no such file or directory''
                then consIndex []
                  (driverIndexes c rs
                    (w2, snd s @ [Call_GetBoardArticleRecordsPath (BoardID r), Call_ReadArticleRecordsFile path]))
                else (Inl err,
                  (w2, snd s @ [Call_GetBoardArticleRecordsPath (BoardID r), Call_ReadArticleRecordsFile path])))
           | ((ars, None), w2) \<Rightarrow>
               consIndex ars
                 (driverIndexes c rs
                   (w2, snd s @ [Call_GetBoardArticleRecordsPath (BoardID r), Call_ReadArticleRecordsFile path]))))"

text \<open>
  The driver has no cached answer for user \<open>U\<close>: it does not implement
  \<open>UserArticleConnector\<close> (and nothing is called), or it does, the path is resolved
  and the read succeeds with no record; \<open>s'\<close> is the state after these calls.
\<close>

definition cacheUnavailable :: "'w DB \<Rightarrow> string \<Rightarrow> 'w st \<Rightarrow> 'w st \<Rightarrow> bool" where
  "cacheUnavailable db U s s' =
     (case asUserArticleConnector (connector db) of
        None \<Rightarrow> s' = s
      | Some uac \<Rightarrow>
          (case GetUserArticleRecordsPath uac U (fst s) of
             ((path, Some err), w1) \<Rightarrow> False
           | ((path, None), w1) \<Rightarrow>
               (case ReadUserArticleRecordFile uac path w1 of
                  ((recs, Some err), w2) \<Rightarrow> False
                | ((recs, None), w2) \<Rightarrow>
                    recs = [] \<and>
                    s' = (w2, snd s @ [Call_GetUserArticleRecordsPath U, Call_ReadUserArticleRecordFile path]))))"

section \<open>A driver in memory, for the examples\<close>

text \<open>
  The world of this driver is the number of calls it has served. Board \<open>b\<close> has its
  index at \<open>/boards/b/.DIR\<close>; the boards are those of the specification's example
  (\<open>A\<close>, \<open>B\<close>, \<open>ALLPOST\<close>), a board \<open>Broken\<close> whose index is cut short, a
  board \<open>Odd\<close> whose index is malformed and reported with a message that quotes the
  words of a missing file, and a board \<open>Gone\<close> whose missing index is reported with
  the message of \<^verbatim>\<open>fs.ErrNotExist\<close>; any other board has no index file and the
  message is that of \<^verbatim>\<open>os.Open\<close>.
\<close>

definition board :: "string \<Rightarrow> BoardRecord" where
  "board b = \<lparr>BoardID = b, Title = ''board '' @ b, IsClass = False, ClassID = [], BM = []\<rparr>"

definition article :: "string \<Rightarrow> string \<Rightarrow> ArticleRecord" where
  "article f u =
     \<lparr>Filename = f, Modified = 0, Recommend = 0, Date = ''10/31'', Title = ''re '' @ f, Money = 0, Owner = u\<rparr>"

definition exampleIndex :: "string \<Rightarrow> ArticleRecord list \<times> error option" where
  "exampleIndex name =
     (if name = ''/boards/A/.DIR'' then ([article ''art1'' ''U'', article ''art2'' ''V''], None)
      else if name = ''/boards/B/.DIR'' then ([article ''art3'' ''U''], None)
      else if name = ''/boards/ALLPOST/.DIR'' then ([article ''art4'' ''U''], None)
      else if name = ''/boards/Broken/.DIR'' then ([], Some (Errorf ''unexpected EOF''))
      else if name = ''/boards/Odd/.DIR''
        then ([], Some (Errorf ''bad title <no such file or directory> in record 3''))
      else if name = ''/boards/Gone/.DIR'' then ([], Some (Errorf ''file does not exist''))
      else ([], Some (Errorf (''open '' @ name @ '': no such file or directory''))))"

definition memConnector :: "BoardRecord list \<Rightarrow> nat UserArticleConnector option \<Rightarrow> nat Connector" where
  "memConnector boards uac =
     \<lparr>Open = (\<lambda>dsn w. (if dsn = [] then Some (Errorf ''no BBSHOME'') else None, Suc w)),
      GetBoardRecordsPath = (\<lambda>w. ((''/.BRD'', None), Suc w)),
      ReadBoardRecordsFile = (\<lambda>name w. ((boards, None), Suc w)),
      GetBoardArticleRecordsPath = (\<lambda>b w. ((''/boards/'' @ b @ ''/.DIR'', None), Suc w)),
      GetBoardTreasureRecordsPath = (\<lambda>b t w.
        ((''/man/boards/'' @ b @ concat (map (\<lambda>d. ''/'' @ d) t) @ ''/.DIR'', None), Suc w)),
      ReadArticleRecordsFile = (\<lambda>name w. (exampleIndex name, Suc w)),
      asWriteBoardConnector = None,
      asUserArticleConnector = uac\<rparr>"

text \<open>
  A cache of user articles: user \<open>U\<close> has one cached record (of board \<open>ALLPOST\<close>,
  which the scan would never produce), user \<open>V\<close> has an empty cache, and any other
  user has no cache file.
\<close>

definition exampleCache :: "nat UserArticleConnector" where
  "exampleCache =
     \<lparr>GetUserArticleRecordsPath = (\<lambda>u w. ((''/home/'' @ u @ ''/.posts'', None), Suc w)),
      ReadUserArticleRecordFile = (\<lambda>name w.
        (if name = ''/home/U/.posts''
           then ([\<lparr>board_id = ''ALLPOST'', title = ''re art4'', owner = ''U'', article_id = ''art4''\<rparr>], None)
         else if name = ''/home/V/.posts'' then ([], None)
         else ([], Some (Errorf (''open '' @ name @ '': no such file or directory''))), Suc w))\<rparr>"

definition exampleBoards :: "BoardRecord list" where
  "exampleBoards = [board ''A'', board ''B'', board ''ALLPOST'', board ''Unposted'']"

text \<open>
  A driver whose cache holds no file at all, for any user, and a driver that refuses
  to resolve the index path of a board with an empty id.
\<close>

definition noCache :: "nat UserArticleConnector" where
  "noCache =
     \<lparr>GetUserArticleRecordsPath = (\<lambda>u w. ((''/home/'' @ u @ ''/.posts'', None), Suc w)),
      ReadUserArticleRecordFile = (\<lambda>name w.
        (([], Some (Errorf (''open '' @ name @ '': no such file or directory''))), Suc w))\<rparr>"


section \<open>Auxiliary facts\<close>

lemmas example_defs =
  memConnector_def exampleCache_def exampleBoards_def exampleIndex_def board_def article_def

lemmas facade_defs =
  ReadBoardRecords_def ReadBoardArticleRecordsFile_def ReadBoardTreasureRecordsFile_def
  invoke_def shouldSkip_def notALLPOST_def

lemma invoke_eq: "m w = (a, w') \<Longrightarrow> invoke ev m (w, tr) = (a, (w', tr @ [ev]))"
  by (simp add: invoke_def)

lemma HasPrefix_iff: "HasPrefix s p \<longleftrightarrow> (\<exists>ss. s = p @ ss)"
  by (induction s p rule: HasPrefix.induct) auto

text \<open>\<open>Contains\<close> is the substring relation.\<close>

lemma Contains_iff: "Contains s sub \<longleftrightarrow> (\<exists>ps ss. s = ps @ sub @ ss)"
proof (induction s)
  case Nil
  then show ?case by auto
next
  case (Cons x xs)
  show ?case
  proof
    assume "Contains (x # xs) sub"
    then consider "HasPrefix (x # xs) sub" | "Contains xs sub" by auto
    then show "\<exists>ps ss. x # xs = ps @ sub @ ss"
    proof cases
      case 1
      then obtain ss where "x # xs = sub @ ss" by (auto simp: HasPrefix_iff)
      then have "x # xs = [] @ sub @ ss" by simp
      then show ?thesis by blast
    next
      case 2
      then obtain ps ss where "xs = ps @ sub @ ss" using Cons.IH by auto
      then have "x # xs = (x # ps) @ sub @ ss" by simp
      then show ?thesis by blast
    qed
  next
    assume "\<exists>ps ss. x # xs = ps @ sub @ ss"
    then obtain ps ss where eq: "x # xs = ps @ sub @ ss" by auto
    show "Contains (x # xs) sub"
    proof (cases ps)
      case Nil
      with eq have "HasPrefix (x # xs) sub" by (auto simp: HasPrefix_iff)
      then show ?thesis by simp
    next
      case (Cons p ps')
      with eq have "xs = ps' @ sub @ ss" by simp
      then have "Contains xs sub" using Cons.IH by blast
      then show ?thesis by simp
    qed
  qed
qed

lemma scanArticles_eq:
  "scanArticles U r ars recs = recs @ map (userArticleRecord r) (filter (\<lambda>ar. Owner ar = U) ars)"
  by (induction ars arbitrary: recs) auto

lemma synthesized_Nil: "synthesized U [] = []"
  by (simp add: synthesized_def)

lemma synthesized_Cons:
  "synthesized U ((r, ars) # scanned) =
     map (userArticleRecord r) (filter (\<lambda>ar. Owner ar = U) ars) @ synthesized U scanned"
  by (simp add: synthesized_def userArticleRecord_def)

lemma cacheUnavailable_aggregate:
  assumes "cacheUnavailable db U s s'"
  shows "GetUserArticleRecordFile db U s = aggregate db U [] s'"
  using assms
  by (cases s)
     (auto simp: cacheUnavailable_def GetUserArticleRecordFile_def invoke_def
           split: option.splits prod.splits)

text \<open>
  The outer loop against \<open>readIndexes\<close>: when every read succeeds the loop returns what
  it was given followed by the synthesized records; when a read fails it returns that
  error and no record.
\<close>

lemma scanBoards_ok:
  "readIndexes db (notALLPOST brs) s = (Inr indexes, s') \<Longrightarrow>
   scanBoards db U brs recs s = ((recs @ synthesized U (zip (notALLPOST brs) indexes), None), s')"
proof (induction brs arbitrary: recs s indexes)
  case Nil
  then show ?case by (simp add: notALLPOST_def synthesized_Nil)
next
  case (Cons r rs)
  show ?case
  proof (cases "BoardID r = ''ALLPOST''")
    case True
    with Cons show ?thesis by (simp add: notALLPOST_def shouldSkip_def)
  next
    case False
    obtain ars e s1 where rd: "ReadBoardArticleRecordsFile db (BoardID r) s = ((ars, e), s1)"
      by (metis surj_pair)
    from Cons.prems False rd obtain rest where
      e: "e = None" and rest: "readIndexes db (notALLPOST rs) s1 = (Inr rest, s')"
      and idx: "indexes = ars # rest"
      by (auto simp: notALLPOST_def split: option.splits sum.splits prod.splits)
    from Cons.IH [OF rest] False rd e idx show ?thesis
      by (simp add: notALLPOST_def shouldSkip_def scanArticles_eq synthesized_Cons)
  qed
qed


lemma aggregate_example:
  "aggregate \<lparr>connector = memConnector exampleBoards uac\<rparr> ''V'' [] (w, tr) =
     (([\<lparr>board_id = ''A'', title = ''re art2'', owner = ''V'', article_id = ''art2''\<rparr>], None),
      (w + 8, tr @ [Call_GetBoardRecordsPath, Call_ReadBoardRecordsFile ''/.BRD'',
           Call_GetBoardArticleRecordsPath ''A'', Call_ReadArticleRecordsFile ''/boards/A/.DIR'',
           Call_GetBoardArticleRecordsPath ''B'', Call_ReadArticleRecordsFile ''/boards/B/.DIR'',
           Call_GetBoardArticleRecordsPath ''Unposted'',
           Call_ReadArticleRecordsFile ''/boards/Unposted/.DIR'']))"
  by (simp add: aggregate_def facade_defs example_defs userArticleRecord_def)

text \<open>The calls made by each part of the scan; none resolves the index path of \<open>ALLPOST\<close>.\<close>

lemma ReadBoardArticleRecordsFile_trace:
  assumes "ReadBoardArticleRecordsFile db b s = (res, s')" and "b \<noteq> ''ALLPOST''"
  shows "\<exists>evs. snd s' = snd s @ evs \<and> Call_GetBoardArticleRecordsPath ''ALLPOST'' \<notin> set evs"
proof -
  obtain path e1 s1 where p: "invoke (Call_GetBoardArticleRecordsPath b)
      (GetBoardArticleRecordsPath (connector db) b) s = ((path, e1), s1)"
    by (metis surj_pair)
  then have t1: "snd s1 = snd s @ [Call_GetBoardArticleRecordsPath b]"
    by (auto simp: invoke_def split: prod.splits)
  obtain recs e2 s2 where r: "invoke (Call_ReadArticleRecordsFile path)
      (ReadArticleRecordsFile (connector db) path) s1 = ((recs, e2), s2)"
    by (metis surj_pair)
  then have t2: "snd s2 = snd s1 @ [Call_ReadArticleRecordsFile path]"
    by (auto simp: invoke_def split: prod.splits)
  from assms(1) p r have "s' = s1 \<or> s' = s2"
    by (auto simp: ReadBoardArticleRecordsFile_def split: option.splits if_splits)
  then show ?thesis
  proof
    assume "s' = s1"
    with t1 assms(2) show ?thesis by simp
  next
    assume "s' = s2"
    with t1 t2 have "snd s' = snd s @ [Call_GetBoardArticleRecordsPath b, Call_ReadArticleRecordsFile path]"
      by simp
    moreover have "Call_GetBoardArticleRecordsPath ''ALLPOST''
        \<notin> set [Call_GetBoardArticleRecordsPath b, Call_ReadArticleRecordsFile path]"
      using assms(2) by auto
    ultimately show ?thesis by blast
  qed
qed

lemma ReadBoardRecords_trace:
  assumes "ReadBoardRecords db s = (res, s')"
  shows "\<exists>evs. snd s' = snd s @ evs \<and> Call_GetBoardArticleRecordsPath ''ALLPOST'' \<notin> set evs"
proof -
  obtain path e1 s1 where p: "invoke Call_GetBoardRecordsPath
      (GetBoardRecordsPath (connector db)) s = ((path, e1), s1)"
    by (metis surj_pair)
  then have t1: "snd s1 = snd s @ [Call_GetBoardRecordsPath]"
    by (auto simp: invoke_def split: prod.splits)
  obtain recs e2 s2 where r: "invoke (Call_ReadBoardRecordsFile path)
      (ReadBoardRecordsFile (connector db) path) s1 = ((recs, e2), s2)"
    by (metis surj_pair)
  then have t2: "snd s2 = snd s1 @ [Call_ReadBoardRecordsFile path]"
    by (auto simp: invoke_def split: prod.splits)
  from assms(1) p r have "s' = s1 \<or> s' = s2"
    by (auto simp: ReadBoardRecords_def split: option.splits)
  then show ?thesis
  proof
    assume "s' = s1"
    with t1 show ?thesis by simp
  next
    assume "s' = s2"
    with t1 t2 have "snd s' = snd s @ [Call_GetBoardRecordsPath, Call_ReadBoardRecordsFile path]"
      by simp
    moreover have "Call_GetBoardArticleRecordsPath ''ALLPOST''
        \<notin> set [Call_GetBoardRecordsPath, Call_ReadBoardRecordsFile path]"
      by simp
    ultimately show ?thesis by blast
  qed
qed

lemma cacheUnavailable_trace:
  assumes "cacheUnavailable db U s s'"
  shows "\<exists>evs. snd s' = snd s @ evs \<and> Call_GetBoardArticleRecordsPath ''ALLPOST'' \<notin> set evs"
proof (cases "asUserArticleConnector (connector db)")
  case None
  with assms have "s' = s" by (simp add: cacheUnavailable_def)
  then show ?thesis by simp
next
  case (Some uac)
  obtain path e1 w1 where p: "GetUserArticleRecordsPath uac U (fst s) = ((path, e1), w1)"
    by (metis surj_pair)
  obtain recs e2 w2 where r: "ReadUserArticleRecordFile uac path w1 = ((recs, e2), w2)"
    by (metis surj_pair)
  from assms Some p r have
    "snd s' = snd s @ [Call_GetUserArticleRecordsPath U, Call_ReadUserArticleRecordFile path]"
    by (auto simp: cacheUnavailable_def split: option.splits)
  moreover have "Call_GetBoardArticleRecordsPath ''ALLPOST''
      \<notin> set [Call_GetUserArticleRecordsPath U, Call_ReadUserArticleRecordFile path]"
    by simp
  ultimately show ?thesis by blast
qed

lemma scanBoards_no_ALLPOST:
  assumes "scanBoards db U brs recs s = ((out, e), s')"
    and "\<forall>x\<in>set recs. board_id x \<noteq> ''ALLPOST''"
  shows "(\<forall>x\<in>set out. board_id x \<noteq> ''ALLPOST'') \<and>
         (\<exists>evs. snd s' = snd s @ evs \<and> Call_GetBoardArticleRecordsPath ''ALLPOST'' \<notin> set evs)"
  using assms
proof (induction brs arbitrary: recs s)
  case Nil
  then show ?case by auto
next
  case (Cons r rs)
  show ?case
  proof (cases "BoardID r = ''ALLPOST''")
    case True
    with Cons.prems have "scanBoards db U rs recs s = ((out, e), s')"
      by (simp add: shouldSkip_def)
    from Cons.IH [OF this Cons.prems(2)] show ?thesis .
  next
    case False
    obtain ars e1 s1 where rd: "ReadBoardArticleRecordsFile db (BoardID r) s = ((ars, e1), s1)"
      by (metis surj_pair)
    from ReadBoardArticleRecordsFile_trace [OF rd False] obtain evs1 where
      t1: "snd s1 = snd s @ evs1" and n1: "Call_GetBoardArticleRecordsPath ''ALLPOST'' \<notin> set evs1"
      by auto
    show ?thesis
    proof (cases e1)
      case (Some err)
      with Cons.prems(1) False rd have "out = []" "s' = s1"
        by (auto simp: shouldSkip_def)
      with t1 n1 show ?thesis by auto
    next
      case None
      let ?recs = "scanArticles U r ars recs"
      from None Cons.prems(1) False rd have run: "scanBoards db U rs ?recs s1 = ((out, e), s')"
        by (simp add: shouldSkip_def)
      have "\<forall>x\<in>set ?recs. board_id x \<noteq> ''ALLPOST''"
        using Cons.prems(2) False by (auto simp: scanArticles_eq userArticleRecord_def)
      from Cons.IH [OF run this] obtain evs2 where
        out: "\<forall>x\<in>set out. board_id x \<noteq> ''ALLPOST''"
        and t2: "snd s' = snd s1 @ evs2"
        and n2: "Call_GetBoardArticleRecordsPath ''ALLPOST'' \<notin> set evs2"
        by auto
      from t1 t2 have "snd s' = snd s @ (evs1 @ evs2)" by simp
      moreover from n1 n2 have "Call_GetBoardArticleRecordsPath ''ALLPOST'' \<notin> set (evs1 @ evs2)"
        by simp
      ultimately show ?thesis using out by blast
    qed
  qed
qed

lemma aggregate_no_ALLPOST:
  assumes "aggregate db U [] s = ((out, e), s')"
  shows "(\<forall>x\<in>set out. board_id x \<noteq> ''ALLPOST'') \<and>
         (\<exists>evs. snd s' = snd s @ evs \<and> Call_GetBoardArticleRecordsPath ''ALLPOST'' \<notin> set evs)"
proof -
  obtain brs e0 s1 where rb: "ReadBoardRecords db s = ((brs, e0), s1)"
    by (metis surj_pair)
  from ReadBoardRecords_trace [OF rb] obtain evs1 where
    t1: "snd s1 = snd s @ evs1" and n1: "Call_GetBoardArticleRecordsPath ''ALLPOST'' \<notin> set evs1"
    by auto
  show ?thesis
  proof (cases e0)
    case (Some err)
    with assms rb have "out = []" "s' = s1" by (auto simp: aggregate_def)
    with t1 n1 show ?thesis by auto
  next
    case None
    with assms rb have run: "scanBoards db U brs [] s1 = ((out, e), s')"
      by (simp add: aggregate_def)
    from scanBoards_no_ALLPOST [OF run] obtain evs2 where
      out: "\<forall>x\<in>set out. board_id x \<noteq> ''ALLPOST''"
      and t2: "snd s' = snd s1 @ evs2"
      and n2: "Call_GetBoardArticleRecordsPath ''ALLPOST'' \<notin> set evs2"
      by auto
    from t1 t2 have "snd s' = snd s @ (evs1 @ evs2)" by simp
    moreover from n1 n2 have "Call_GetBoardArticleRecordsPath ''ALLPOST'' \<notin> set (evs1 @ evs2)"
      by simp
    ultimately show ?thesis using out by blast
  qed
qed



lemma ReadBoardArticleRecordsFile_error:
  assumes "GetBoardArticleRecordsPath (connector db) b w = ((path, None), w1)"
    and "ReadArticleRecordsFile (connector db) path w1 = ((recs, Some err), w2)"
    and "\<not> Contains (Error err) ''no such file or directory''"
  shows "ReadBoardArticleRecordsFile db b (w, tr) =
           (([], Some err), (w2, tr @ [Call_GetBoardArticleRecordsPath b, Call_ReadArticleRecordsFile path]))"
  using assms by (simp add: ReadBoardArticleRecordsFile_def invoke_def)

text \<open>The readers of the facade on what the driver returns.\<close>

lemma ReadBoardRecords_ok:
  assumes "GetBoardRecordsPath (connector db) w = ((path, None), w1)"
    and "ReadBoardRecordsFile (connector db) path w1 = ((recs, None), w2)"
  shows "ReadBoardRecords db (w, tr) =
           ((recs, None), (w2, tr @ [Call_GetBoardRecordsPath, Call_ReadBoardRecordsFile path]))"
  using assms by (simp add: ReadBoardRecords_def invoke_def)

lemma ReadBoardArticleRecordsFile_ok:
  assumes "GetBoardArticleRecordsPath (connector db) b w = ((path, None), w1)"
    and "ReadArticleRecordsFile (connector db) path w1 = ((recs, None), w2)"
  shows "ReadBoardArticleRecordsFile db b (w, tr) =
           ((recs, None), (w2, tr @ [Call_GetBoardArticleRecordsPath b, Call_ReadArticleRecordsFile path]))"
  using assms by (simp add: ReadBoardArticleRecordsFile_def invoke_def)

lemma ReadBoardArticleRecordsFile_path_error:
  assumes "GetBoardArticleRecordsPath (connector db) b w = ((path, Some err), w1)"
  shows "ReadBoardArticleRecordsFile db b (w, tr) =
           (([], Some err), (w1, tr @ [Call_GetBoardArticleRecordsPath b]))"
  using assms by (simp add: ReadBoardArticleRecordsFile_def invoke_def)

lemma ReadBoardArticleRecordsFile_missing:
  assumes "GetBoardArticleRecordsPath (connector db) b w = ((path, None), w1)"
    and "ReadArticleRecordsFile (connector db) path w1 = ((recs, Some err), w2)"
    and "Contains (Error err) ''no such file or directory''"
  shows "ReadBoardArticleRecordsFile db b (w, tr) =
           (([], None), (w2, tr @ [Call_GetBoardArticleRecordsPath b, Call_ReadArticleRecordsFile path]))"
  using assms by (simp add: ReadBoardArticleRecordsFile_def invoke_def)

lemma readIndexes_driver: "readIndexes db boards s = driverIndexes (connector db) boards s"
proof (induction boards arbitrary: s)
  case Nil
  show ?case by simp
next
  case (Cons r rs)
  obtain w tr where s: "s = (w, tr)" by (cases s)
  obtain path e1 w1 where p: "GetBoardArticleRecordsPath (connector db) (BoardID r) w = ((path, e1), w1)"
    by (metis surj_pair)
  show ?case
  proof (cases e1)
    case (Some err)
    with p s show ?thesis by (simp add: ReadBoardArticleRecordsFile_path_error)
  next
    case None
    obtain ars e2 w2 where d: "ReadArticleRecordsFile (connector db) path w1 = ((ars, e2), w2)"
      by (metis surj_pair)
    show ?thesis
    proof (cases e2)
      case None
      from p \<open>e1 = None\<close> d None s show ?thesis
        by (simp add: ReadBoardArticleRecordsFile_ok Cons.IH consIndex_def split: prod.splits sum.splits)
    next
      case (Some err)
      show ?thesis
      proof (cases "Contains (Error err) ''no such file or directory''")
        case True
        from p \<open>e1 = None\<close> d Some s True show ?thesis
          by (simp add: ReadBoardArticleRecordsFile_missing Cons.IH consIndex_def
                split: prod.splits sum.splits del: Contains.simps)
      next
        case False
        from p \<open>e1 = None\<close> d Some s False show ?thesis
          by (simp add: ReadBoardArticleRecordsFile_error del: Contains.simps)
      qed
    qed
  qed
qed

text \<open>The run of the specification's example, by evaluation.\<close>

lemma example_run:
  "GetUserArticleRecordFile \<lparr>connector = memConnector exampleBoards None\<rparr> ''U'' (0, []) =
     (([\<lparr>board_id = ''A'', title = ''re art1'', owner = ''U'', article_id = ''art1''\<rparr>,
        \<lparr>board_id = ''B'', title = ''re art3'', owner = ''U'', article_id = ''art3''\<rparr>], None),
      (8, [Call_GetBoardRecordsPath, Call_ReadBoardRecordsFile ''/.BRD'',
           Call_GetBoardArticleRecordsPath ''A'', Call_ReadArticleRecordsFile ''/boards/A/.DIR'',
           Call_GetBoardArticleRecordsPath ''B'', Call_ReadArticleRecordsFile ''/boards/B/.DIR'',
           Call_GetBoardArticleRecordsPath ''Unposted'',
           Call_ReadArticleRecordsFile ''/boards/Unposted/.DIR'']))"
  by (simp add: GetUserArticleRecordFile_def aggregate_def facade_defs example_defs
        userArticleRecord_def)

section \<open>The aggregation of \<^verbatim>\<open>GetUserArticleRecordFile\<close>\<close>

text \<open>
  Claim C1 says that the scan's records are returned also when the cache is absent.
  When the driver implements \<open>UserArticleConnector\<close> and the cache file of the user
  is absent, the cached read fails and \<open>GetUserArticleRecordFile\<close> returns that error
  and no record, although the same boards, on a driver without the capability, give
  two records for the user.
\<close>

theorem GetUserArticleRecordFile_absent_cache_counterexample:
  "GetUserArticleRecordFile \<lparr>connector = memConnector exampleBoards (Some noCache)\<rparr> ''U'' (0, []) =
     (([], Some (Errorf ''open /home/U/.posts: no such file or directory'')),
      (2, [Call_GetUserArticleRecordsPath ''U'', Call_ReadUserArticleRecordFile ''/home/U/.posts'']))
   \<and> fst (GetUserArticleRecordFile \<lparr>connector = memConnector exampleBoards None\<rparr> ''U'' (0, [])) =
     ([\<lparr>board_id = ''A'', title = ''re art1'', owner = ''U'', article_id = ''art1''\<rparr>,
       \<lparr>board_id = ''B'', title = ''re art3'', owner = ''U'', article_id = ''art3''\<rparr>], None)"
  by (simp add: GetUserArticleRecordFile_def aggregate_def facade_defs example_defs noCache_def
        userArticleRecord_def)

text \<open>
  Claim C1, amended. When the driver has no cached answer for user \<open>U\<close> (it does
  not implement \<open>UserArticleConnector\<close>, or the cached list is read without error and
  is empty), the driver resolves and reads the board records without error, and for
  every board other than \<open>ALLPOST\<close>, in order, the driver resolves the index path and
  decodes the index (an index whose decoding error says \<open>no such file or directory\<close>
  being empty), then \<open>GetUserArticleRecordFile\<close> returns, with a nil error, exactly
  the records synthesized from these boards and indexes: in the order of the boards,
  then of the articles, one record for each article owned by \<open>U\<close>, nothing removed
  and nothing added.
\<close>

theorem GetUserArticleRecordFile_synthesized:
  assumes "cacheUnavailable db U s (w1, tr1)"
    and "GetBoardRecordsPath (connector db) w1 = ((bpath, None), w1a)"
    and "ReadBoardRecordsFile (connector db) bpath w1a = ((boardRecords, None), w2)"
    and "driverIndexes (connector db) (notALLPOST boardRecords)
           (w2, tr1 @ [Call_GetBoardRecordsPath, Call_ReadBoardRecordsFile bpath]) = (Inr indexes, s3)"
  shows "GetUserArticleRecordFile db U s =
           ((synthesized U (zip (notALLPOST boardRecords) indexes), None), s3)"
proof -
  let ?s2 = "(w2, tr1 @ [Call_GetBoardRecordsPath, Call_ReadBoardRecordsFile bpath])"
  have "ReadBoardRecords db (w1, tr1) = ((boardRecords, None), ?s2)"
    using assms(2,3) by (rule ReadBoardRecords_ok)
  moreover have "readIndexes db (notALLPOST boardRecords) ?s2 = (Inr indexes, s3)"
    using assms(4) by (simp add: readIndexes_driver)
  then have "scanBoards db U boardRecords [] ?s2 =
      (([] @ synthesized U (zip (notALLPOST boardRecords) indexes), None), s3)"
    by (rule scanBoards_ok)
  ultimately show ?thesis
    using cacheUnavailable_aggregate [OF assms(1)] by (simp add: aggregate_def)
qed

text \<open>
  The example of the specification: boards \<open>A\<close> (articles of \<open>U\<close> and \<open>V\<close>), \<open>B\<close>,
  \<open>ALLPOST\<close> and a board without index file; user \<open>U\<close> on a driver without cache,
  user \<open>V\<close> on a driver whose cache for \<open>V\<close> is empty.
\<close>

theorem GetUserArticleRecordFile_synthesized_witness:
  "GetUserArticleRecordFile \<lparr>connector = memConnector exampleBoards None\<rparr> ''U'' (0, []) =
     (([\<lparr>board_id = ''A'', title = ''re art1'', owner = ''U'', article_id = ''art1''\<rparr>,
        \<lparr>board_id = ''B'', title = ''re art3'', owner = ''U'', article_id = ''art3''\<rparr>], None),
      (8, [Call_GetBoardRecordsPath, Call_ReadBoardRecordsFile ''/.BRD'',
           Call_GetBoardArticleRecordsPath ''A'', Call_ReadArticleRecordsFile ''/boards/A/.DIR'',
           Call_GetBoardArticleRecordsPath ''B'', Call_ReadArticleRecordsFile ''/boards/B/.DIR'',
           Call_GetBoardArticleRecordsPath ''Unposted'',
           Call_ReadArticleRecordsFile ''/boards/Unposted/.DIR'']))
   \<and> GetUserArticleRecordFile \<lparr>connector = memConnector exampleBoards (Some exampleCache)\<rparr> ''V'' (0, []) =
     (([\<lparr>board_id = ''A'', title = ''re art2'', owner = ''V'', article_id = ''art2''\<rparr>], None),
      (10, [Call_GetUserArticleRecordsPath ''V'', Call_ReadUserArticleRecordFile ''/home/V/.posts'',
           Call_GetBoardRecordsPath, Call_ReadBoardRecordsFile ''/.BRD'',
           Call_GetBoardArticleRecordsPath ''A'', Call_ReadArticleRecordsFile ''/boards/A/.DIR'',
           Call_GetBoardArticleRecordsPath ''B'', Call_ReadArticleRecordsFile ''/boards/B/.DIR'',
           Call_GetBoardArticleRecordsPath ''Unposted'',
           Call_ReadArticleRecordsFile ''/boards/Unposted/.DIR'']))"
proof -
  let ?c = "memConnector exampleBoards None"
  let ?d = "memConnector exampleBoards (Some exampleCache)"
  let ?indexes = "[[article ''art1'' ''U'', article ''art2'' ''V''], [article ''art3'' ''U''], []]"
  let ?scan = "[Call_GetBoardArticleRecordsPath ''A'', Call_ReadArticleRecordsFile ''/boards/A/.DIR'',
           Call_GetBoardArticleRecordsPath ''B'', Call_ReadArticleRecordsFile ''/boards/B/.DIR'',
           Call_GetBoardArticleRecordsPath ''Unposted'',
           Call_ReadArticleRecordsFile ''/boards/Unposted/.DIR'']"
  have u1: "cacheUnavailable \<lparr>connector = ?c\<rparr> ''U'' (0, []) (0, [])"
    by (simp add: cacheUnavailable_def memConnector_def)
  have u2: "GetBoardRecordsPath (connector \<lparr>connector = ?c\<rparr>) 0 = ((''/.BRD'', None), 1)"
    by (simp add: memConnector_def)
  have u3: "ReadBoardRecordsFile (connector \<lparr>connector = ?c\<rparr>) ''/.BRD'' 1 = ((exampleBoards, None), 2)"
    by (simp add: memConnector_def)
  have u4: "driverIndexes (connector \<lparr>connector = ?c\<rparr>) (notALLPOST exampleBoards)
      (2, [] @ [Call_GetBoardRecordsPath, Call_ReadBoardRecordsFile ''/.BRD'']) =
      (Inr ?indexes, (8, [Call_GetBoardRecordsPath, Call_ReadBoardRecordsFile ''/.BRD''] @ ?scan))"
    by (simp add: notALLPOST_def consIndex_def example_defs)
  have v1: "cacheUnavailable \<lparr>connector = ?d\<rparr> ''V'' (0, [])
      (2, [Call_GetUserArticleRecordsPath ''V'', Call_ReadUserArticleRecordFile ''/home/V/.posts''])"
    by (simp add: cacheUnavailable_def memConnector_def exampleCache_def)
  have v2: "GetBoardRecordsPath (connector \<lparr>connector = ?d\<rparr>) 2 = ((''/.BRD'', None), 3)"
    by (simp add: memConnector_def)
  have v3: "ReadBoardRecordsFile (connector \<lparr>connector = ?d\<rparr>) ''/.BRD'' 3 = ((exampleBoards, None), 4)"
    by (simp add: memConnector_def)
  have v4: "driverIndexes (connector \<lparr>connector = ?d\<rparr>) (notALLPOST exampleBoards)
      (4, [Call_GetUserArticleRecordsPath ''V'', Call_ReadUserArticleRecordFile ''/home/V/.posts'']
          @ [Call_GetBoardRecordsPath, Call_ReadBoardRecordsFile ''/.BRD'']) =
      (Inr ?indexes,
       (10, [Call_GetUserArticleRecordsPath ''V'', Call_ReadUserArticleRecordFile ''/home/V/.posts'',
             Call_GetBoardRecordsPath, Call_ReadBoardRecordsFile ''/.BRD''] @ ?scan))"
    by (simp add: notALLPOST_def consIndex_def example_defs)
  show ?thesis
    using GetUserArticleRecordFile_synthesized [OF u1 u2 u3 u4]
      GetUserArticleRecordFile_synthesized [OF v1 v2 v3 v4]
    by (simp add: synthesized_def notALLPOST_def exampleBoards_def board_def article_def)
qed

text \<open>
  Claim C2. When the driver implements \<open>UserArticleConnector\<close>, the cached path of
  user \<open>U\<close> is resolved and the cached list is read without error and is not empty,
  \<open>GetUserArticleRecordFile\<close> returns exactly that list with a nil error, whatever
  the boards hold; the only calls made into the driver are these two, so no board
  record and no article index is read.
\<close>

theorem GetUserArticleRecordFile_cached:
  assumes "asUserArticleConnector (connector db) = Some uac"
    and "GetUserArticleRecordsPath uac U w = ((path, None), w1)"
    and "ReadUserArticleRecordFile uac path w1 = ((recs, None), w2)"
    and "recs \<noteq> []"
  shows "GetUserArticleRecordFile db U (w, tr) =
           ((recs, None),
            (w2, tr @ [Call_GetUserArticleRecordsPath U, Call_ReadUserArticleRecordFile path]))"
  using assms by (simp add: GetUserArticleRecordFile_def invoke_def)

text \<open>The cached list of user \<open>U\<close> holds a record of \<open>ALLPOST\<close>, which no scan returns.\<close>

theorem GetUserArticleRecordFile_cached_witness:
  "GetUserArticleRecordFile \<lparr>connector = memConnector exampleBoards (Some exampleCache)\<rparr> ''U'' (0, []) =
     (([\<lparr>board_id = ''ALLPOST'', title = ''re art4'', owner = ''U'', article_id = ''art4''\<rparr>], None),
      (2, [Call_GetUserArticleRecordsPath ''U'', Call_ReadUserArticleRecordFile ''/home/U/.posts'']))"
proof -
  let ?db = "\<lparr>connector = memConnector exampleBoards (Some exampleCache)\<rparr>"
  let ?recs = "[\<lparr>board_id = ''ALLPOST'', title = ''re art4'', owner = ''U'', article_id = ''art4''\<rparr>]"
  have h1: "asUserArticleConnector (connector ?db) = Some exampleCache"
    by (simp add: memConnector_def)
  have h2: "GetUserArticleRecordsPath exampleCache ''U'' 0 = ((''/home/U/.posts'', None), 1)"
    by (simp add: exampleCache_def)
  have h3: "ReadUserArticleRecordFile exampleCache ''/home/U/.posts'' 1 = ((?recs, None), 2)"
    by (simp add: exampleCache_def)
  have h4: "?recs \<noteq> []" by simp
  show ?thesis
    using GetUserArticleRecordFile_cached [OF h1 h2 h3 h4, of "[]"] by simp
qed

text \<open>
  Claim C3 says that a cached read reporting a missing cache (a not-found error) does
  not make \<open>GetUserArticleRecordFile\<close> fail. It does: user \<open>W\<close> has no cache
  file, the read returns the error of a missing file, and the method returns that
  error after the two calls of the cache, without a scan.
\<close>

theorem GetUserArticleRecordFile_cache_error_counterexample:
  "GetUserArticleRecordFile \<lparr>connector = memConnector exampleBoards (Some exampleCache)\<rparr> ''W'' (0, []) =
     (([], Some (Errorf ''open /home/W/.posts: no such file or directory'')),
      (2, [Call_GetUserArticleRecordsPath ''W'', Call_ReadUserArticleRecordFile ''/home/W/.posts'']))
   \<and> Contains ''open /home/W/.posts: no such file or directory'' ''no such file or directory''"
  by (simp add: GetUserArticleRecordFile_def invoke_def memConnector_def exampleCache_def)

text \<open>
  Claim C3, amended. When the driver implements \<open>UserArticleConnector\<close> and the
  cached path of \<open>U\<close> is resolved, the outcome follows the cached read: an error of
  the read, a not-found error included, is returned with no record and no scan; a read
  without error and with an empty list falls back to the enumeration of the board
  records and the scan of their indexes; a read without error and with records returns
  them.
\<close>

theorem GetUserArticleRecordFile_cache_read:
  assumes "asUserArticleConnector (connector db) = Some uac"
    and "GetUserArticleRecordsPath uac U w = ((path, None), w1)"
    and "ReadUserArticleRecordFile uac path w1 = ((recs, e), w2)"
    and "s2 = (w2, tr @ [Call_GetUserArticleRecordsPath U, Call_ReadUserArticleRecordFile path])"
  shows "GetUserArticleRecordFile db U (w, tr) =
           (case e of
              Some err \<Rightarrow> (([], Some err), s2)
            | None \<Rightarrow> if recs = [] then aggregate db U [] s2 else ((recs, None), s2))"
  using assms by (simp add: GetUserArticleRecordFile_def invoke_def split: option.splits)

text \<open>User \<open>V\<close> has an empty cache and gets the scan; user \<open>W\<close> has none and gets the error.\<close>

theorem GetUserArticleRecordFile_cache_read_witness:
  "GetUserArticleRecordFile \<lparr>connector = memConnector exampleBoards (Some exampleCache)\<rparr> ''V'' (0, []) =
     (([\<lparr>board_id = ''A'', title = ''re art2'', owner = ''V'', article_id = ''art2''\<rparr>], None),
      (10, [Call_GetUserArticleRecordsPath ''V'', Call_ReadUserArticleRecordFile ''/home/V/.posts'',
           Call_GetBoardRecordsPath, Call_ReadBoardRecordsFile ''/.BRD'',
           Call_GetBoardArticleRecordsPath ''A'', Call_ReadArticleRecordsFile ''/boards/A/.DIR'',
           Call_GetBoardArticleRecordsPath ''B'', Call_ReadArticleRecordsFile ''/boards/B/.DIR'',
           Call_GetBoardArticleRecordsPath ''Unposted'',
           Call_ReadArticleRecordsFile ''/boards/Unposted/.DIR'']))
   \<and> GetUserArticleRecordFile \<lparr>connector = memConnector exampleBoards (Some exampleCache)\<rparr> ''W'' (0, []) =
     (([], Some (Errorf ''open /home/W/.posts: no such file or directory'')),
      (2, [Call_GetUserArticleRecordsPath ''W'', Call_ReadUserArticleRecordFile ''/home/W/.posts'']))"
proof -
  let ?db = "\<lparr>connector = memConnector exampleBoards (Some exampleCache)\<rparr>"
  have h1: "asUserArticleConnector (connector ?db) = Some exampleCache"
    by (simp add: memConnector_def)
  have v2: "GetUserArticleRecordsPath exampleCache ''V'' 0 = ((''/home/V/.posts'', None), 1)"
    by (simp add: exampleCache_def)
  have v3: "ReadUserArticleRecordFile exampleCache ''/home/V/.posts'' 1 = (([], None), 2)"
    by (simp add: exampleCache_def)
  have w2: "GetUserArticleRecordsPath exampleCache ''W'' 0 = ((''/home/W/.posts'', None), 1)"
    by (simp add: exampleCache_def)
  have w3: "ReadUserArticleRecordFile exampleCache ''/home/W/.posts'' 1 =
      (([], Some (Errorf ''open /home/W/.posts: no such file or directory'')), 2)"
    by (simp add: exampleCache_def)
  show ?thesis
    using GetUserArticleRecordFile_cache_read [OF h1 v2 v3 refl, of "[]"]
      GetUserArticleRecordFile_cache_read [OF h1 w2 w3 refl, of "[]"]
    by (simp add: aggregate_example)
qed

text \<open>
  Claim C4. When \<open>GetUserArticleRecordFile\<close> takes the aggregation path (the driver
  has no cached answer), no record it returns has board id \<open>ALLPOST\<close>, and among the
  calls it makes into the driver none resolves the article index of board
  \<open>ALLPOST\<close>. The facade reaches an index only through
  \<open>ReadBoardArticleRecordsFile\<close>, which resolves the board's path first, so the index
  of \<open>ALLPOST\<close> is never read. This holds for every list of board records, with or
  without a board \<open>ALLPOST\<close>.
\<close>

theorem GetUserArticleRecordFile_no_ALLPOST:
  assumes "cacheUnavailable db U s s1"
    and "GetUserArticleRecordFile db U s = ((recs, e), s')"
  shows "(\<forall>x\<in>set recs. board_id x \<noteq> ''ALLPOST'') \<and>
         (\<exists>evs. snd s' = snd s @ evs \<and> Call_GetBoardArticleRecordsPath ''ALLPOST'' \<notin> set evs)"
proof -
  from assms have run: "aggregate db U [] s1 = ((recs, e), s')"
    by (simp add: cacheUnavailable_aggregate)
  from cacheUnavailable_trace [OF assms(1)] obtain evs1 where
    t1: "snd s1 = snd s @ evs1" and n1: "Call_GetBoardArticleRecordsPath ''ALLPOST'' \<notin> set evs1"
    by auto
  from aggregate_no_ALLPOST [OF run] obtain evs2 where
    out: "\<forall>x\<in>set recs. board_id x \<noteq> ''ALLPOST''"
    and t2: "snd s' = snd s1 @ evs2"
    and n2: "Call_GetBoardArticleRecordsPath ''ALLPOST'' \<notin> set evs2"
    by auto
  from t1 t2 have "snd s' = snd s @ (evs1 @ evs2)" by simp
  moreover from n1 n2 have "Call_GetBoardArticleRecordsPath ''ALLPOST'' \<notin> set (evs1 @ evs2)"
    by simp
  ultimately show ?thesis using out by blast
qed

text \<open>In the example board \<open>ALLPOST\<close> holds an article of \<open>U\<close>.\<close>

theorem GetUserArticleRecordFile_no_ALLPOST_witness:
  "''ALLPOST'' \<notin> board_id `
       set (fst (fst (GetUserArticleRecordFile \<lparr>connector = memConnector exampleBoards None\<rparr> ''U'' (0, []))))
   \<and> Call_GetBoardArticleRecordsPath ''ALLPOST'' \<notin>
       set (snd (snd (GetUserArticleRecordFile \<lparr>connector = memConnector exampleBoards None\<rparr> ''U'' (0, []))))
   \<and> board ''ALLPOST'' \<in> set exampleBoards
   \<and> fst (exampleIndex ''/boards/ALLPOST/.DIR'') = [article ''art4'' ''U'']"
proof -
  let ?db = "\<lparr>connector = memConnector exampleBoards None\<rparr>"
  have h1: "cacheUnavailable ?db ''U'' (0, []) (0, [])"
    by (simp add: cacheUnavailable_def memConnector_def)
  note h2 = example_run
  from GetUserArticleRecordFile_no_ALLPOST [OF h1 h2]
  have "''ALLPOST'' \<notin> board_id ` set (fst (fst (GetUserArticleRecordFile ?db ''U'' (0, []))))"
    and "Call_GetBoardArticleRecordsPath ''ALLPOST'' \<notin>
       set (snd (snd (GetUserArticleRecordFile ?db ''U'' (0, []))))"
    unfolding example_run by auto
  moreover have "board ''ALLPOST'' \<in> set exampleBoards"
    by (simp add: exampleBoards_def)
  moreover have "fst (exampleIndex ''/boards/ALLPOST/.DIR'') = [article ''art4'' ''U'']"
    by (simp add: exampleIndex_def)
  ultimately show ?thesis by blast
qed



section \<open>Reading article indexes\<close>

text \<open>
  Claim C6 says that a decoding that fails because no index file exists gives an
  empty list and a nil error, and that every other decoding error is returned. Board
  \<open>Gone\<close> has no index file and the driver reports it as \<open>file does not exist\<close>: the
  error is returned. The index of board \<open>Odd\<close> is malformed and the driver's message
  quotes the words \<open>no such file or directory\<close>: the error is dropped.
\<close>

theorem ReadBoardArticleRecordsFile_not_found_counterexample:
  "ReadArticleRecordsFile (memConnector exampleBoards None) ''/boards/Gone/.DIR'' 1 =
     (([], Some (Errorf ''file does not exist'')), 2)
   \<and> fst (ReadBoardArticleRecordsFile \<lparr>connector = memConnector exampleBoards None\<rparr> ''Gone'' (0, [])) =
     ([], Some (Errorf ''file does not exist''))
   \<and> ReadArticleRecordsFile (memConnector exampleBoards None) ''/boards/Odd/.DIR'' 1 =
     (([], Some (Errorf ''bad title <no such file or directory> in record 3'')), 2)
   \<and> fst (ReadBoardArticleRecordsFile \<lparr>connector = memConnector exampleBoards None\<rparr> ''Odd'' (0, [])) =
     ([], None)"
  by (simp add: ReadBoardArticleRecordsFile_def invoke_def memConnector_def exampleIndex_def)

text \<open>
  Claim C6, amended. When the path of a board's article index is resolved and the
  decoding fails, \<open>ReadBoardArticleRecordsFile\<close> returns an empty list and a nil error
  if the message of the error has \<open>no such file or directory\<close> as a substring (as the
  error of \<^verbatim>\<open>os.Open\<close> for a missing file has), and returns no record and the error
  itself if it has not; whether an index file exists plays no part.
\<close>

theorem ReadBoardArticleRecordsFile_decode_error:
  assumes "GetBoardArticleRecordsPath (connector db) boardID w = ((path, None), w1)"
    and "ReadArticleRecordsFile (connector db) path w1 = ((recs, Some err), w2)"
  shows "ReadBoardArticleRecordsFile db boardID (w, tr) =
           ((if \<exists>pre post. Error err = pre @ ''no such file or directory'' @ post
             then ([], None) else ([], Some err)),
            (w2, tr @ [Call_GetBoardArticleRecordsPath boardID, Call_ReadArticleRecordsFile path]))"
  using assms
  by (simp add: ReadBoardArticleRecordsFile_def invoke_def Contains_iff del: Contains.simps)

text \<open>A board without index file, reported by \<^verbatim>\<open>os.Open\<close>, and a board whose index is cut short.\<close>

theorem ReadBoardArticleRecordsFile_decode_error_witness:
  "ReadBoardArticleRecordsFile \<lparr>connector = memConnector exampleBoards None\<rparr> ''Unposted'' (0, []) =
     (([], None),
      (2, [Call_GetBoardArticleRecordsPath ''Unposted'',
           Call_ReadArticleRecordsFile ''/boards/Unposted/.DIR'']))
   \<and> ReadBoardArticleRecordsFile \<lparr>connector = memConnector exampleBoards None\<rparr> ''Broken'' (0, []) =
     (([], Some (Errorf ''unexpected EOF'')),
      (2, [Call_GetBoardArticleRecordsPath ''Broken'',
           Call_ReadArticleRecordsFile ''/boards/Broken/.DIR'']))"
proof -
  let ?db = "\<lparr>connector = memConnector exampleBoards None\<rparr>"
  let ?missing = "Errorf ''open /boards/Unposted/.DIR: no such file or directory''"
  let ?short = "Errorf ''unexpected EOF''"
  have u1: "GetBoardArticleRecordsPath (connector ?db) ''Unposted'' 0 =
      ((''/boards/Unposted/.DIR'', None), 1)"
    by (simp add: memConnector_def)
  have u2: "ReadArticleRecordsFile (connector ?db) ''/boards/Unposted/.DIR'' 1 = (([], Some ?missing), 2)"
    by (simp add: memConnector_def exampleIndex_def)
  have u3: "\<exists>pre post. Error ?missing = pre @ ''no such file or directory'' @ post"
  proof -
    have "Error ?missing = ''open /boards/Unposted/.DIR: '' @ ''no such file or directory'' @ []"
      by simp
    then show ?thesis by blast
  qed
  have b1: "GetBoardArticleRecordsPath (connector ?db) ''Broken'' 0 =
      ((''/boards/Broken/.DIR'', None), 1)"
    by (simp add: memConnector_def)
  have b2: "ReadArticleRecordsFile (connector ?db) ''/boards/Broken/.DIR'' 1 = (([], Some ?short), 2)"
    by (simp add: memConnector_def exampleIndex_def)
  have "\<not> Contains (Error ?short) ''no such file or directory''"
    by simp
  then have b3: "\<not> (\<exists>pre post. Error ?short = pre @ ''no such file or directory'' @ post)"
    unfolding Contains_iff .
  from ReadBoardArticleRecordsFile_decode_error [OF u1 u2, of "[]"] u3
  have 1: "ReadBoardArticleRecordsFile ?db ''Unposted'' (0, []) =
     (([], None),
      (2, [Call_GetBoardArticleRecordsPath ''Unposted'',
           Call_ReadArticleRecordsFile ''/boards/Unposted/.DIR'']))"
    by (simp only: if_True append_Nil)
  from ReadBoardArticleRecordsFile_decode_error [OF b1 b2, of "[]"] b3
  have 2: "ReadBoardArticleRecordsFile ?db ''Broken'' (0, []) =
     (([], Some ?short),
      (2, [Call_GetBoardArticleRecordsPath ''Broken'',
           Call_ReadArticleRecordsFile ''/boards/Broken/.DIR'']))"
    by (simp only: if_False append_Nil)
  from 1 2 show ?thesis by simp
qed

text \<open>
  Claim C10. The classification looks at the message only: a decode error whose
  message has \<open>no such file or directory\<close> as a substring, anywhere, becomes an empty
  list and a nil error; a decode error whose message has no such substring is
  returned, whatever it stands for.
\<close>

theorem ReadBoardArticleRecordsFile_by_substring:
  assumes "GetBoardArticleRecordsPath (connector db) boardID w = ((path, None), w1)"
    and "ReadArticleRecordsFile (connector db) path w1 = ((recs, Some err), w2)"
    and "s2 = (w2, tr @ [Call_GetBoardArticleRecordsPath boardID, Call_ReadArticleRecordsFile path])"
  shows "((\<exists>pre post. Error err = pre @ ''no such file or directory'' @ post) \<longrightarrow>
            ReadBoardArticleRecordsFile db boardID (w, tr) = (([], None), s2))
       \<and> ((\<forall>pre post. Error err \<noteq> pre @ ''no such file or directory'' @ post) \<longrightarrow>
            ReadBoardArticleRecordsFile db boardID (w, tr) = (([], Some err), s2))"
  using assms
  by (simp add: ReadBoardArticleRecordsFile_def invoke_def Contains_iff del: Contains.simps)

text \<open>
  A format error that quotes the words is taken for a missing file; a missing file
  reported as \<open>file does not exist\<close> is not.
\<close>

theorem ReadBoardArticleRecordsFile_by_substring_witness:
  "ReadBoardArticleRecordsFile \<lparr>connector = memConnector exampleBoards None\<rparr> ''Odd'' (0, []) =
     (([], None),
      (2, [Call_GetBoardArticleRecordsPath ''Odd'', Call_ReadArticleRecordsFile ''/boards/Odd/.DIR'']))
   \<and> ReadBoardArticleRecordsFile \<lparr>connector = memConnector exampleBoards None\<rparr> ''Gone'' (0, []) =
     (([], Some (Errorf ''file does not exist'')),
      (2, [Call_GetBoardArticleRecordsPath ''Gone'', Call_ReadArticleRecordsFile ''/boards/Gone/.DIR'']))"
proof -
  let ?db = "\<lparr>connector = memConnector exampleBoards None\<rparr>"
  let ?odd = "Errorf ''bad title <no such file or directory> in record 3''"
  let ?gone = "Errorf ''file does not exist''"
  have o1: "GetBoardArticleRecordsPath (connector ?db) ''Odd'' 0 = ((''/boards/Odd/.DIR'', None), 1)"
    by (simp add: memConnector_def)
  have o2: "ReadArticleRecordsFile (connector ?db) ''/boards/Odd/.DIR'' 1 = (([], Some ?odd), 2)"
    by (simp add: memConnector_def exampleIndex_def)
  have o3: "\<exists>pre post. Error ?odd = pre @ ''no such file or directory'' @ post"
  proof -
    have "Error ?odd = ''bad title <'' @ ''no such file or directory'' @ ''> in record 3''"
      by simp
    then show ?thesis by blast
  qed
  have g1: "GetBoardArticleRecordsPath (connector ?db) ''Gone'' 0 = ((''/boards/Gone/.DIR'', None), 1)"
    by (simp add: memConnector_def)
  have g2: "ReadArticleRecordsFile (connector ?db) ''/boards/Gone/.DIR'' 1 = (([], Some ?gone), 2)"
    by (simp add: memConnector_def exampleIndex_def)
  have "\<not> Contains (Error ?gone) ''no such file or directory''"
    by simp
  then have g3: "\<forall>pre post. Error ?gone \<noteq> pre @ ''no such file or directory'' @ post"
    unfolding Contains_iff by blast
  from ReadBoardArticleRecordsFile_by_substring [OF o1 o2 refl, of "[]"] o3
  have 1: "ReadBoardArticleRecordsFile ?db ''Odd'' (0, []) =
     (([], None),
      (2, [Call_GetBoardArticleRecordsPath ''Odd'', Call_ReadArticleRecordsFile ''/boards/Odd/.DIR'']))"
    by simp
  from ReadBoardArticleRecordsFile_by_substring [OF g1 g2 refl, of "[]"] g3
  have 2: "ReadBoardArticleRecordsFile ?db ''Gone'' (0, []) =
     (([], Some ?gone),
      (2, [Call_GetBoardArticleRecordsPath ''Gone'', Call_ReadArticleRecordsFile ''/boards/Gone/.DIR'']))"
    by simp
  from 1 2 show ?thesis by simp
qed

text \<open>
  Claim C7 says that \<open>ReadBoardTreasureRecordsFile\<close> turns a not-found error of the
  decoding into an empty list and a nil error. It returns the error: the treasure
  folder below has no index file.
\<close>

theorem ReadBoardTreasureRecordsFile_not_found_counterexample:
  "ReadBoardTreasureRecordsFile \<lparr>connector = memConnector exampleBoards None\<rparr> ''A'' [''M.1'', ''D.2''] (0, []) =
     (([], Some (Errorf ''open /man/boards/A/M.1/D.2/.DIR: no such file or directory'')),
      (2, [Call_GetBoardTreasureRecordsPath ''A'' [''M.1'', ''D.2''],
           Call_ReadArticleRecordsFile ''/man/boards/A/M.1/D.2/.DIR'']))
   \<and> Contains ''open /man/boards/A/M.1/D.2/.DIR: no such file or directory'' ''no such file or directory''"
  by (simp add: ReadBoardTreasureRecordsFile_def invoke_def memConnector_def exampleIndex_def)

text \<open>
  Claim C7, amended. When the path of a treasure index is resolved and the decoding
  fails, \<open>ReadBoardTreasureRecordsFile\<close> returns no record and that error, a
  not-found error included.
\<close>

theorem ReadBoardTreasureRecordsFile_decode_error:
  assumes "GetBoardTreasureRecordsPath (connector db) boardID treasureID w = ((path, None), w1)"
    and "ReadArticleRecordsFile (connector db) path w1 = ((recs, Some err), w2)"
  shows "ReadBoardTreasureRecordsFile db boardID treasureID (w, tr) =
           (([], Some err),
            (w2, tr @ [Call_GetBoardTreasureRecordsPath boardID treasureID,
                       Call_ReadArticleRecordsFile path]))"
  using assms by (simp add: ReadBoardTreasureRecordsFile_def invoke_def)

theorem ReadBoardTreasureRecordsFile_decode_error_witness:
  "ReadBoardTreasureRecordsFile \<lparr>connector = memConnector exampleBoards None\<rparr> ''A'' [''M.1''] (0, []) =
     (([], Some (Errorf ''open /man/boards/A/M.1/.DIR: no such file or directory'')),
      (2, [Call_GetBoardTreasureRecordsPath ''A'' [''M.1''],
           Call_ReadArticleRecordsFile ''/man/boards/A/M.1/.DIR'']))"
proof -
  let ?db = "\<lparr>connector = memConnector exampleBoards None\<rparr>"
  have h1: "GetBoardTreasureRecordsPath (connector ?db) ''A'' [''M.1''] 0 =
      ((''/man/boards/A/M.1/.DIR'', None), 1)"
    by (simp add: memConnector_def)
  have h2: "ReadArticleRecordsFile (connector ?db) ''/man/boards/A/M.1/.DIR'' 1 =
      (([], Some (Errorf ''open /man/boards/A/M.1/.DIR: no such file or directory'')), 2)"
    by (simp add: memConnector_def exampleIndex_def)
  show ?thesis
    using ReadBoardTreasureRecordsFile_decode_error [OF h1 h2, of "[]"] by simp
qed

section \<open>Adding a board record\<close>

text \<open>
  Without \<open>WriteBoardConnector\<close> the conversion in \<open>NewBoardRecord\<close> panics at
  once, and the one in \<open>AddBoardRecord\<close> panics as soon as the path of the board
  records is resolved.
\<close>

lemma DB_NewBoardRecord_panics:
  "asWriteBoardConnector (connector db) = None \<Longrightarrow> DB_NewBoardRecord db args s = (Panic, s)"
  by (simp add: DB_NewBoardRecord_def)

lemma AddBoardRecord_panics:
  assumes "asWriteBoardConnector (connector db) = None"
    and "GetBoardRecordsPath (connector db) w = ((path, None), w1)"
  shows "AddBoardRecord db brd (w, tr) = (Panic, (w1, tr @ [Call_GetBoardRecordsPath]))"
  using assms by (simp add: AddBoardRecord_def invoke_def)

text \<open>
  Claim C5 asks for a capability-missing error returned to the caller. For the
  driver of the examples, which does not implement \<open>WriteBoardConnector\<close>, both
  methods panic instead of returning.
\<close>

theorem AddBoardRecord_without_capability:
  "AddBoardRecord \<lparr>connector = memConnector exampleBoards None\<rparr> (board ''New'') (0, []) =
     (Panic, (1, [Call_GetBoardRecordsPath]))
   \<and> DB_NewBoardRecord \<lparr>connector = memConnector exampleBoards None\<rparr> Map.empty (0, []) =
     (Panic, (0, []))"
  by (simp add: AddBoardRecord_def DB_NewBoardRecord_def invoke_def memConnector_def)

section \<open>Opening a driver\<close>

text \<open>
  Claim C9. For a name that is not registered, \<open>Open\<close> of the package returns a nil
  facade and an error saying that the driver is not found, and calls nothing; for a
  registered name whose driver fails to open, a nil facade and the driver's error
  wrapped with the name; for a registered name whose driver opens, a facade holding
  the registered driver and a nil error.
\<close>

theorem bbs_Open_results:
  "(drivers drivername = None \<longrightarrow>
      bbs_Open drivers drivername dsn (w, tr) =
        ((None, Some (Errorf (''bbs: drivername: '' @ drivername @ '' not found''))), (w, tr)))
   \<and> (\<forall>c err w1. drivers drivername = Some c \<and> Open c dsn w = (Some err, w1) \<longrightarrow>
      bbs_Open drivers drivername dsn (w, tr) =
        ((None, Some (Errorf (''bbs: drivername: '' @ drivername @ '' open error: '' @ Error err))),
         (w1, tr @ [Call_Open dsn])))
   \<and> (\<forall>c w1. drivers drivername = Some c \<and> Open c dsn w = (None, w1) \<longrightarrow>
      bbs_Open drivers drivername dsn (w, tr) =
        ((Some \<lparr>connector = c\<rparr>, None), (w1, tr @ [Call_Open dsn])))"
  by (simp add: bbs_Open_def invoke_def)

theorem bbs_Open_results_witness:
  "bbs_Open (Register ''mem'' (memConnector exampleBoards None) Map.empty) ''pttbbs'' ''/home/bbs'' (0, []) =
     ((None, Some (Errorf ''bbs: drivername: pttbbs not found'')), (0, []))
   \<and> bbs_Open (Register ''mem'' (memConnector exampleBoards None) Map.empty) ''mem'' [] (0, []) =
     ((None, Some (Errorf ''bbs: drivername: mem open error: no BBSHOME'')), (1, [Call_Open []]))
   \<and> bbs_Open (Register ''mem'' (memConnector exampleBoards None) Map.empty) ''mem'' ''/home/bbs'' (0, []) =
     ((Some \<lparr>connector = memConnector exampleBoards None\<rparr>, None), (1, [Call_Open ''/home/bbs'']))"
proof -
  let ?c = "memConnector exampleBoards None"
  let ?drivers = "Register ''mem'' ?c Map.empty"
  have n: "?drivers ''pttbbs'' = None" by (simp add: Register_def)
  have r: "?drivers ''mem'' = Some ?c" by (simp add: Register_def)
  have f: "Open ?c [] 0 = (Some (Errorf ''no BBSHOME''), 1)" by (simp add: memConnector_def)
  have k: "Open ?c ''/home/bbs'' 0 = (None, 1)" by (simp add: memConnector_def)
  from bbs_Open_results [of ?drivers "''pttbbs''" "''/home/bbs''" 0 "[]"] n
  have 1: "bbs_Open ?drivers ''pttbbs'' ''/home/bbs'' (0, []) =
     ((None, Some (Errorf ''bbs: drivername: pttbbs not found'')), (0, []))"
    by simp
  from bbs_Open_results [of ?drivers "''mem''" "[]" 0 "[]"] r f
  have 2: "bbs_Open ?drivers ''mem'' [] (0, []) =
     ((None, Some (Errorf ''bbs: drivername: mem open error: no BBSHOME'')), (1, [Call_Open []]))"
    by simp
  from bbs_Open_results [of ?drivers "''mem''" "''/home/bbs''" 0 "[]"] r k
  have 3: "bbs_Open ?drivers ''mem'' ''/home/bbs'' (0, []) =
     ((Some \<lparr>connector = ?c\<rparr>, None), (1, [Call_Open ''/home/bbs'']))"
    by simp
  from 1 2 3 show ?thesis by simp
qed

end
